theory Spec2Isabelle
  imports Main
begin

section \<open>Python values used by the program\<close>

text \<open>
  Strings are lists of 8-bit characters, so the model covers text over the code points
  U+0000 .. U+00FF. On that range \<^verbatim>\<open>str.isspace\<close> holds for exactly the
  characters listed in \<open>whitespace\<close>.
\<close>

definition whitespace :: "char list" where
  "whitespace =
     [CHR 0x09, CHR 0x0A, CHR 0x0B, CHR 0x0C, CHR 0x0D,
      CHR 0x1C, CHR 0x1D, CHR 0x1E, CHR 0x1F, CHR 0x20, CHR 0x85, CHR 0xA0]"

definition isspace :: "char \<Rightarrow> bool" where
  "isspace c = (c \<in> set whitespace)"

text \<open>\<^verbatim>\<open>s.strip()\<close>: whitespace removed at both ends.\<close>

definition strip :: "string \<Rightarrow> string" where
  "strip s = rev (dropWhile isspace (rev (dropWhile isspace s)))"

text \<open>\<^verbatim>\<open>sep.join(xs)\<close>.\<close>

fun join :: "string \<Rightarrow> string list \<Rightarrow> string" where
  "join sep [] = []"
| "join sep [x] = x"
| "join sep (x # y # ys) = x @ sep @ join sep (y # ys)"

text \<open>
  The values a settings document holds: text, integers and booleans. Text and integers
  are what \<^verbatim>\<open>save_settings\<close> writes; a boolean can come from a file edited by hand.
\<close>

datatype jval = JStr string | JInt int | JBool bool

text \<open>Python truthiness, as used by \<^verbatim>\<open>if value\<close>.\<close>

fun truthy :: "jval \<Rightarrow> bool" where
  "truthy (JStr s) = (s \<noteq> [])"
| "truthy (JInt n) = (n \<noteq> 0)"
| "truthy (JBool b) = b"

text \<open>Decimal digits of a natural number and of an integer (\<^verbatim>\<open>str(n)\<close>).\<close>

definition digit_char :: "nat \<Rightarrow> char" where
  "digit_char d = char_of (48 + d)"

fun str_of_nat :: "nat \<Rightarrow> string" where
  "str_of_nat n = (if n < 10 then [digit_char n] else str_of_nat (n div 10) @ [digit_char (n mod 10)])"

definition str_of_int :: "int \<Rightarrow> string" where
  "str_of_int i = (if i < 0 then CHR ''-'' # str_of_nat (nat (- i)) else str_of_nat (nat i))"

text \<open>\<^verbatim>\<open>f"{value}"\<close>: the text of a value inside an f-string.\<close>

fun py_str :: "jval \<Rightarrow> string" where
  "py_str (JStr s) = s"
| "py_str (JInt n) = str_of_int n"
| "py_str (JBool b) = (if b then ''True'' else ''False'')"

text \<open>
  The text Tk stores when a value is passed to \<^verbatim>\<open>Entry.insert\<close> or
  \<^verbatim>\<open>Combobox.set\<close>: a string as it is, an integer in decimal, a boolean as 1 or 0.
\<close>

fun tk_str :: "jval \<Rightarrow> string" where
  "tk_str (JStr s) = s"
| "tk_str (JInt n) = str_of_int n"
| "tk_str (JBool b) = (if b then ''1'' else ''0'')"

text \<open>Exceptions that leave an operation uncaught.\<close>

datatype exn = ValueError | JSONDecodeError

text \<open>
  \<^verbatim>\<open>int(value)\<close>. For text: whitespace around the number is dropped (here the
  characters U+001C .. U+001F do not count as whitespace, unlike for \<^verbatim>\<open>strip\<close>), one sign
  is allowed, then come decimal digits, with single underscores allowed between digits;
  anything else raises \<^verbatim>\<open>ValueError\<close>. The interpreter's configurable limit on the
  number of digits is left out.
\<close>

definition int_space :: "char \<Rightarrow> bool" where
  "int_space c =
     (c \<in> set [CHR 0x09, CHR 0x0A, CHR 0x0B, CHR 0x0C, CHR 0x0D, CHR 0x20, CHR 0x85, CHR 0xA0])"

definition int_trim :: "string \<Rightarrow> string" where
  "int_trim s = rev (dropWhile int_space (rev (dropWhile int_space s)))"

definition isdigit :: "char \<Rightarrow> bool" where
  "isdigit c = (let n = (of_char c :: nat) in 48 \<le> n \<and> n \<le> 57)"

fun digits_ok :: "bool \<Rightarrow> string \<Rightarrow> bool" where
  "digits_ok prev_digit [] = prev_digit"
| "digits_ok prev_digit (c # cs) =
     (if isdigit c then digits_ok True cs
      else if c = CHR ''_'' \<and> prev_digit then digits_ok False cs
      else False)"

definition nat_of_digits :: "string \<Rightarrow> nat" where
  "nat_of_digits ds = foldl (\<lambda>acc c. 10 * acc + (of_char c - 48)) 0 (filter isdigit ds)"

definition int_of_str :: "string \<Rightarrow> exn + int" where
  "int_of_str s =
     (case int_trim s of
        [] \<Rightarrow> Inl ValueError
      | c # cs \<Rightarrow>
          (let neg = (c = CHR ''-'');
               ds = (if c = CHR ''-'' \<or> c = CHR ''+'' then cs else c # cs)
           in if digits_ok False ds
              then Inr (if neg then - int (nat_of_digits ds) else int (nat_of_digits ds))
              else Inl ValueError))"

fun py_int :: "jval \<Rightarrow> exn + int" where
  "py_int (JStr s) = int_of_str s"
| "py_int (JInt n) = Inr n"
| "py_int (JBool b) = Inr (if b then 1 else 0)"

section \<open>Dictionaries\<close>

text \<open>
  A Python dict keeps its keys in insertion order: it is an association list whose
  keys are distinct. \<open>setitem\<close> is \<^verbatim>\<open>d[k] = v\<close> (an existing key keeps its place),
  \<open>getitem\<close> is \<^verbatim>\<open>d.get(k)\<close>, and \<open>merge_dicts\<close> is the display
  \<^verbatim>\<open>{**d1, **d2, ...}\<close>.
\<close>

type_synonym ('k, 'v) dict = "('k \<times> 'v) list"

fun setitem :: "('k, 'v) dict \<Rightarrow> 'k \<Rightarrow> 'v \<Rightarrow> ('k, 'v) dict" where
  "setitem [] k v = [(k, v)]"
| "setitem ((k', v') # d) k v = (if k' = k then (k, v) # d else (k', v') # setitem d k v)"

definition getitem :: "('k, 'v) dict \<Rightarrow> 'k \<Rightarrow> 'v option" where
  "getitem d k = map_of d k"

definition merge_dicts :: "('k, 'v) dict list \<Rightarrow> ('k, 'v) dict" where
  "merge_dicts ds = foldl (\<lambda>d (k, v). setitem d k v) [] (concat ds)"

section \<open>Widgets, catalog and application state\<close>

text \<open>
  The three kinds of live input: a \<^verbatim>\<open>tk.Entry\<close> with its text, a \<^verbatim>\<open>tk.IntVar\<close>
  behind a checkbox, and a \<^verbatim>\<open>ttk.Combobox\<close> with its choices and its current text.
\<close>

datatype widget = Entry string | IntVar int | Combobox "string list" string

text \<open>\<^verbatim>\<open>widget.get()\<close>.\<close>

fun get :: "widget \<Rightarrow> jval" where
  "get (Entry s) = JStr s"
| "get (IntVar n) = JInt n"
| "get (Combobox choices s) = JStr s"

text \<open>
  The \<^verbatim>\<open>isinstance\<close> tests. \<^verbatim>\<open>ttk.Combobox\<close> derives from \<^verbatim>\<open>ttk.Entry\<close>, which
  derives from \<^verbatim>\<open>tkinter.Entry\<close>, so \<^verbatim>\<open>isinstance(widget, tk.Entry)\<close> holds for a
  combobox as well as for an entry.
\<close>

fun isinstance_Entry :: "widget \<Rightarrow> bool" where
  "isinstance_Entry (Entry s) = True"
| "isinstance_Entry (Combobox choices s) = True"
| "isinstance_Entry (IntVar n) = False"

fun isinstance_IntVar :: "widget \<Rightarrow> bool" where
  "isinstance_IntVar (IntVar n) = True"
| "isinstance_IntVar w = False"

fun isinstance_Combobox :: "widget \<Rightarrow> bool" where
  "isinstance_Combobox (Combobox choices s) = True"
| "isinstance_Combobox w = False"

text \<open>
  \<^verbatim>\<open>widget.delete(0, tk.END)\<close> and \<^verbatim>\<open>widget.insert(0, text)\<close>. An entry is editable.
  Every combobox of this program is created with \<^verbatim>\<open>state="readonly"\<close> and nothing
  changes that state; on a read-only widget Tk's \<^verbatim>\<open>delete\<close> and \<^verbatim>\<open>insert\<close> have no
  effect.
\<close>

fun delete_all :: "widget \<Rightarrow> widget" where
  "delete_all (Entry s) = Entry []"
| "delete_all w = w"

fun insert_front :: "string \<Rightarrow> widget \<Rightarrow> widget" where
  "insert_front t (Entry s) = Entry (t @ s)"
| "insert_front t w = w"

text \<open>\<^verbatim>\<open>IntVar.set\<close> and \<^verbatim>\<open>Combobox.set\<close>; the latter works in the read-only state too.\<close>

fun set_int :: "int \<Rightarrow> widget \<Rightarrow> widget" where
  "set_int i (IntVar n) = IntVar i"
| "set_int i w = w"

fun set_text :: "string \<Rightarrow> widget \<Rightarrow> widget" where
  "set_text t (Combobox choices s) = Combobox choices t"
| "set_text t w = w"

type_synonym entries = "(string, widget) dict"
type_synonym document = "(string, jval) dict"

text \<open>
  A catalog row \<^verbatim>\<open>(label_text, param, key, *widget_type)\<close>. The tail of the tuple
  is empty, a default text, the tag \<^verbatim>\<open>"checkbox"\<close>, or the tag \<^verbatim>\<open>"dropdown"\<close>
  followed by the list of choices.
\<close>

datatype widget_type = NoExtra | Default string | Checkbox | Dropdown "string list"

type_synonym option_row = "string \<times> string \<times> string \<times> widget_type"

text \<open>
  \<^verbatim>\<open>add_options\<close>: one widget per row, bound under the row's key. A dropdown with no
  choices raises \<^verbatim>\<open>IndexError\<close> at \<^verbatim>\<open>choices[0]\<close>, which is the value \<open>None\<close>.
\<close>

fun make_widget :: "widget_type \<Rightarrow> widget option" where
  "make_widget Checkbox = Some (IntVar 0)"
| "make_widget (Dropdown choices) =
     (case choices of [] \<Rightarrow> None | c # cs \<Rightarrow> Some (Combobox choices c))"
| "make_widget (Default s) = Some (Entry s)"
| "make_widget NoExtra = Some (Entry [])"

fun add_options :: "entries \<Rightarrow> option_row list \<Rightarrow> entries option" where
  "add_options entries [] = Some entries"
| "add_options entries ((label_text, param, key, widget_type) # options) =
     (case make_widget widget_type of
        None \<Rightarrow> None
      | Some w \<Rightarrow> add_options (setitem entries key w) options)"

definition network_options :: "option_row list" where
  "network_options =
     [(''URL'', ''-o'', ''url'', Default ''stratum+tcp://randomxmonero.auto.nicehash.com:9200''),
      (''Coin'', ''--coin'', ''coin'', NoExtra),
      (''Username'', ''-u'', ''user'', Default ''38bj4uu8uDsnC5NjoeGb8TMviBCEtMiaet''),
      (''Password'', ''-p'', ''pass'', NoExtra),
      (''Userpass'', ''-O'', ''userpass'', NoExtra),
      (''Proxy'', ''-x'', ''proxy'', NoExtra),
      (''Keepalive'', ''-k'', ''keepalive'', Checkbox),
      (''Nicehash'', ''--nicehash'', ''nicehash'', Checkbox),
      (''Rig ID'', ''--rig-id'', ''rig-id'', NoExtra),
      (''Algorithm'', ''-a'', ''algo'', Dropdown
        [''gr'', ''rx/graft'', ''cn/upx2'', ''argon2/chukwav2'', ''cn/ccx'', ''kawpow'', ''rx/keva'',
         ''cn-pico/tlo'', ''rx/sfx'', ''rx/arq'', ''rx/0'', ''argon2/chukwa'', ''argon2/ninja'', ''rx/wow'',
         ''cn/fast'', ''cn/rwz'', ''cn/zls'', ''cn/double'', ''cn/r'', ''cn-pico'', ''cn/half'', ''cn/2'',
         ''cn/xao'', ''cn/rto'', ''cn-heavy/tube'', ''cn-heavy/xhv'', ''cn-heavy/0'', ''cn/1'',
         ''cn-lite/1'', ''cn-lite/0'', ''cn/0''])]"

definition cpu_options :: "option_row list" where
  "cpu_options =
     [(''Disable CPU'', ''--no-cpu'', ''no-cpu'', Checkbox),
      (''Threads'', ''-t'', ''threads'', NoExtra),
      (''CPU Affinity'', ''--cpu-affinity'', ''cpu-affinity'', NoExtra),
      (''Algorithm Variation'', ''-v'', ''av'', NoExtra),
      (''CPU Priority'', ''--cpu-priority'', ''cpu-priority'', NoExtra),
      (''Max Threads Hint'', ''--cpu-max-threads-hint'', ''cpu-max-threads-hint'', NoExtra),
      (''CPU Memory Pool'', ''--cpu-memory-pool'', ''cpu-memory-pool'', NoExtra),
      (''CPU No Yield'', ''--cpu-no-yield'', ''cpu-no-yield'', Checkbox),
      (''No Huge Pages'', ''--no-huge-pages'', ''no-huge-pages'', Checkbox),
      (''Huge Page Size'', ''--hugepage-size'', ''hugepage-size'', NoExtra),
      (''Huge Pages JIT'', ''--huge-pages-jit'', ''huge-pages-jit'', Checkbox),
      (''ASM Optimizations'', ''--asm'', ''asm'', Dropdown [''auto'', ''none'', ''intel'', ''ryzen'', ''bulldozer'']),
      (''Argon2 Implementation'', ''--argon2-impl'', ''argon2-impl'',
         Dropdown [''x86_64'', ''SSE2'', ''SSSE3'', ''XOP'', ''AVX2'', ''AVX-512F'']),
      (''RandomX Init'', ''--randomx-init'', ''randomx-init'', NoExtra),
      (''RandomX No NUMA'', ''--randomx-no-numa'', ''randomx-no-numa'', Checkbox),
      (''RandomX Mode'', ''--randomx-mode'', ''randomx-mode'', Dropdown [''auto'', ''fast'', ''light'']),
      (''RandomX 1GB Pages'', ''--randomx-1gb-pages'', ''randomx-1gb-pages'', Checkbox),
      (''RandomX MSR'', ''--randomx-wrmsr'', ''randomx-wrmsr'', NoExtra),
      (''RandomX No RDMSR'', ''--randomx-no-rdmsr'', ''randomx-no-rdmsr'', Checkbox),
      (''RandomX Cache QoS'', ''--randomx-cache-qos'', ''randomx-cache-qos'', Checkbox)]"

definition api_options :: "option_row list" where
  "api_options =
     [(''Worker ID'', ''--api-worker-id'', ''api-worker-id'', NoExtra),
      (''Instance ID'', ''--api-id'', ''api-id'', NoExtra),
      (''Host'', ''--http-host'', ''http-host'', Default ''127.0.0.1''),
      (''Port'', ''--http-port'', ''http-port'', NoExtra),
      (''Access Token'', ''--http-access-token'', ''http-access-token'', NoExtra),
      (''No Restricted'', ''--http-no-restricted'', ''http-no-restricted'', Checkbox)]"

definition tls_options :: "option_row list" where
  "tls_options = [(''TLS Gen'', ''--tls-gen'', ''tls-gen'', NoExtra)]"

definition logging_options :: "option_row list" where
  "logging_options = [(''Syslog'', ''-S'', ''syslog'', Checkbox)]"

definition misc_options :: "option_row list" where
  "misc_options = []"

text \<open>
  The fields of \<^verbatim>\<open>XMRigGUI\<close>. The process handle is the \<^verbatim>\<open>Popen\<close> object,
  identified by a number; \<open>None\<close> is Python's \<^verbatim>\<open>None\<close>.
\<close>

record app =
  settings :: document
  network_entries :: entries
  cpu_entries :: entries
  api_entries :: entries
  tls_entries :: entries
  logging_entries :: entries
  misc_entries :: entries
  process :: "nat option"

text \<open>\<^verbatim>\<open>__init__\<close>: empty settings, no process, one registry per tab.\<close>

definition init :: "app option" where
  "init =
     (case (add_options [] network_options, add_options [] cpu_options,
            add_options [] api_options, add_options [] tls_options,
            add_options [] logging_options, add_options [] misc_options) of
        (Some n, Some c, Some a, Some t, Some l, Some m) \<Rightarrow>
          Some \<lparr>settings = [], network_entries = n, cpu_entries = c, api_entries = a,
                tls_entries = t, logging_entries = l, misc_entries = m, process = None\<rparr>
      | _ \<Rightarrow> None)"

text \<open>The list of tabs that \<^verbatim>\<open>update_ui_with_settings\<close> walks, and its write-back.\<close>

definition tabs :: "app \<Rightarrow> entries list" where
  "tabs a = [network_entries a, cpu_entries a, api_entries a,
             tls_entries a, logging_entries a, misc_entries a]"

fun set_tabs :: "app \<Rightarrow> entries list \<Rightarrow> app" where
  "set_tabs a [n, c, p, t, l, m] =
     a\<lparr>network_entries := n, cpu_entries := c, api_entries := p,
       tls_entries := t, logging_entries := l, misc_entries := m\<rparr>"
| "set_tabs a ts = a"

text \<open>The merged registry \<^verbatim>\<open>{**network, **cpu, **api, **tls, **logging, **misc}\<close>.\<close>

definition all_entries :: "app \<Rightarrow> entries" where
  "all_entries a = merge_dicts (tabs a)"

text \<open>Every key names one live input across the whole form.\<close>

definition unique_keys :: "app \<Rightarrow> bool" where
  "unique_keys a = distinct (map fst (concat (tabs a)))"

section \<open>Settings store\<close>

text \<open>
  The file \<^verbatim>\<open>xmrig_parameters.json\<close>: absent, not parseable as JSON, or holding a
  JSON object. Writing a document and parsing it back gives the same document.
\<close>

datatype param_file = NoFile | Garbage | JsonObject document

datatype event =
    ShowError string string
  | ShowWarning string string
  | ShowInfo string string
  | Popen "string list" nat
  | Terminate nat

text \<open>The test \<^verbatim>\<open>isinstance(value, str) and value.strip() == ""\<close>.\<close>

fun is_blank :: "jval \<Rightarrow> bool" where
  "is_blank (JStr s) = (strip s = [])"
| "is_blank v = False"

text \<open>One round of the loop of \<^verbatim>\<open>save_settings\<close>.\<close>

definition save_item :: "document \<Rightarrow> string \<times> widget \<Rightarrow> document" where
  "save_item d kw =
     (case kw of (key, entry) \<Rightarrow>
        (let value = get entry in
         if is_blank value then d else setitem d key value))"

definition capture :: "app \<Rightarrow> document" where
  "capture a = foldl save_item [] (all_entries a)"

definition save_settings :: "app \<Rightarrow> app \<times> param_file" where
  "save_settings a = (let d = capture a in (a\<lparr>settings := d\<rparr>, JsonObject d))"

text \<open>
  The body of the loop of \<^verbatim>\<open>update_ui_with_settings\<close> for one widget; \<open>value\<close> is
  \<^verbatim>\<open>self.settings.get(key, "")\<close>.
\<close>

definition lookup_setting :: "document \<Rightarrow> string \<Rightarrow> jval" where
  "lookup_setting d key = (case getitem d key of None \<Rightarrow> JStr [] | Some v \<Rightarrow> v)"

definition update_widget :: "jval \<Rightarrow> widget \<Rightarrow> exn + widget" where
  "update_widget value widget =
     (if isinstance_Entry widget
      then Inr (insert_front (tk_str value) (delete_all widget))
      else if isinstance_IntVar widget
      then (if truthy value
            then (case py_int value of Inl e \<Rightarrow> Inl e | Inr i \<Rightarrow> Inr (set_int i widget))
            else Inr (set_int 0 widget))
      else if isinstance_Combobox widget
      then Inr (set_text (tk_str (if truthy value then value else get widget)) widget)
      else Inr widget)"

text \<open>
  The inner loop over one tab and the outer loop over the tabs. An exception stops the
  walk: the widgets already visited keep their new values, the rest are as before.
\<close>

fun update_entries :: "document \<Rightarrow> entries \<Rightarrow> entries \<times> exn option" where
  "update_entries d [] = ([], None)"
| "update_entries d ((key, widget) # rest) =
     (case update_widget (lookup_setting d key) widget of
        Inl e \<Rightarrow> ((key, widget) # rest, Some e)
      | Inr w \<Rightarrow> (case update_entries d rest of (rest', r) \<Rightarrow> ((key, w) # rest', r)))"

fun update_tabs :: "document \<Rightarrow> entries list \<Rightarrow> entries list \<times> exn option" where
  "update_tabs d [] = ([], None)"
| "update_tabs d (tab_entries # others) =
     (case update_entries d tab_entries of
        (tab', Some e) \<Rightarrow> (tab' # others, Some e)
      | (tab', None) \<Rightarrow> (case update_tabs d others of (others', r) \<Rightarrow> (tab' # others', r)))"

definition update_ui_with_settings :: "app \<Rightarrow> app \<times> exn option" where
  "update_ui_with_settings a =
     (case update_tabs (settings a) (tabs a) of (ts, r) \<Rightarrow> (set_tabs a ts, r))"

text \<open>
  \<^verbatim>\<open>load_settings\<close>: the new state, the notices shown, and the exception that escapes,
  if any.
\<close>

fun load_settings :: "param_file \<Rightarrow> app \<Rightarrow> app \<times> event list \<times> exn option" where
  "load_settings NoFile a = (a, [ShowError ''Error'' ''No parameter file found.''], None)"
| "load_settings Garbage a = (a, [], Some JSONDecodeError)"
| "load_settings (JsonObject d) a =
     (case update_ui_with_settings (a\<lparr>settings := d\<rparr>) of (a', r) \<Rightarrow> (a', [], r))"

section \<open>Process controller\<close>

text \<open>One round of the loop in \<^verbatim>\<open>run_xmrig\<close> that collects the arguments.\<close>

definition add_arg :: "string list \<Rightarrow> string \<times> widget \<Rightarrow> string list" where
  "add_arg command kw =
     (case kw of (key, widget) \<Rightarrow>
        (let value = get widget in
         if isinstance_IntVar widget \<and> truthy value then command @ [''--'' @ key]
         else if truthy value then command @ [''--'' @ key @ ''='' @ py_str value]
         else command))"

definition build_command :: "app \<Rightarrow> string list" where
  "build_command a = foldl add_arg [''./xmrig''] (all_entries a)"

text \<open>
  What \<^verbatim>\<open>run_xmrig\<close> asks of the system: whether the process behind a handle is
  still alive (\<^verbatim>\<open>poll() is None\<close>), whether \<^verbatim>\<open>mate-terminal\<close> can be started, and
  the handle a successful \<^verbatim>\<open>Popen\<close> returns.
\<close>

record env =
  alive :: "nat \<Rightarrow> bool"
  terminal_installed :: bool
  new_handle :: nat

definition popen_args :: "string list \<Rightarrow> string list" where
  "popen_args command =
     [''mate-terminal'', ''--'', ''bash'', ''-c'', join '' '' command @ ''; exec bash'']"

definition already_running :: "env \<Rightarrow> app \<Rightarrow> bool" where
  "already_running e a = (case process a of None \<Rightarrow> False | Some p \<Rightarrow> alive e p)"

definition run_xmrig :: "env \<Rightarrow> app \<Rightarrow> app \<times> event list" where
  "run_xmrig e a =
     (if already_running e a
      then (a, [ShowWarning ''Warning'' ''XMRig is already running.''])
      else
        (let command = build_command a in
         if terminal_installed e
         then (a\<lparr>process := Some (new_handle e)\<rparr>, [Popen (popen_args command) (new_handle e)])
         else (a, [ShowError ''Error'' ''mate-terminal is not installed or not found.''])))"

definition stop_xmrig :: "app \<Rightarrow> app \<times> event list" where
  "stop_xmrig a =
     (case process a of
        Some p \<Rightarrow> (a\<lparr>process := None\<rparr>, [Terminate p, ShowInfo ''Info'' ''XMRig stopped.''])
      | None \<Rightarrow> (a, [ShowWarning ''Warning'' ''XMRig is not running.'']))"

section \<open>States of the same form\<close>

text \<open>
  The registry is built once, by \<^verbatim>\<open>__init__\<close>; afterwards only the values of the inputs
  change. Two states have the same inputs when their tabs hold the same keys in the same
  places, with widgets of the same class and, for a dropdown, the same choices.
\<close>

fun same_kind :: "widget \<Rightarrow> widget \<Rightarrow> bool" where
  "same_kind (Entry s) (Entry t) = True"
| "same_kind (IntVar m) (IntVar n) = True"
| "same_kind (Combobox choices s) (Combobox choices' t) = (choices' = choices)"
| "same_kind w w' = False"

definition same_inputs :: "app \<Rightarrow> app \<Rightarrow> bool" where
  "same_inputs a b =
     list_all2 (list_all2 (\<lambda>kw kw'. fst kw' = fst kw \<and> same_kind (snd kw) (snd kw')))
       (tabs a) (tabs b)"

section \<open>Sample states\<close>

text \<open>
  The state right after start-up, and states reached from it: the user has typed one
  space into the Coin field; the user has ticked Nicehash; a document edited by hand has
  been read into \<open>settings\<close>; the user has typed another URL and ticked Nicehash
  while a process runs; the user has chosen the RandomX mode \<^verbatim>\<open>fast\<close>; a process was
  started earlier.
\<close>

definition started :: app where
  "started = the init"

definition blank_coin :: app where
  "blank_coin =
     started\<lparr>network_entries := setitem (network_entries started) ''coin'' (Entry '' '')\<rparr>"

definition nicehash_on :: app where
  "nicehash_on =
     started\<lparr>network_entries := setitem (network_entries started) ''nicehash'' (IntVar 1)\<rparr>"

definition edited_document :: app where
  "edited_document =
     started\<lparr>settings := [(''url'', JStr ''pool:3333''), (''keepalive'', JInt 1), (''randomx-mode'', JStr [])]\<rparr>"

definition other_values :: app where
  "other_values =
     started\<lparr>network_entries :=
               setitem (setitem (network_entries started) ''url'' (Entry ''pool:3333''))
                 ''nicehash'' (IntVar 1),
             process := Some 1\<rparr>"

definition fast_mode :: app where
  "fast_mode =
     started\<lparr>cpu_entries :=
               setitem (cpu_entries started) ''randomx-mode''
                 (Combobox [''auto'', ''fast'', ''light''] ''fast'')\<rparr>"

definition with_handle :: app where
  "with_handle = started\<lparr>process := Some 1\<rparr>"

text \<open>
  Two environments: in the first the terminal program is missing and no process is
  alive; in the second the process behind handle 1 is still alive.
\<close>

definition no_terminal :: env where
  "no_terminal = \<lparr>alive = (\<lambda>p. False), terminal_installed = False, new_handle = 2\<rparr>"

definition still_alive :: env where
  "still_alive = \<lparr>alive = (\<lambda>p. p = 1), terminal_installed = True, new_handle = 2\<rparr>"

section \<open>Facts about strings and dictionaries\<close>

lemma dropWhile_all: "(\<forall>x \<in> set (dropWhile P s). P x) \<longleftrightarrow> (\<forall>c \<in> set s. P c)"
proof
  assume all: "\<forall>x \<in> set (dropWhile P s). P x"
  have "dropWhile P s = []"
  proof (rule ccontr)
    assume ne: "dropWhile P s \<noteq> []"
    then have "\<not> P (hd (dropWhile P s))" by (rule hd_dropWhile)
    moreover from ne have "hd (dropWhile P s) \<in> set (dropWhile P s)" by simp
    ultimately show False using all by blast
  qed
  then show "\<forall>c \<in> set s. P c" by (simp add: dropWhile_eq_Nil_conv)
next
  assume "\<forall>c \<in> set s. P c"
  then show "\<forall>x \<in> set (dropWhile P s). P x" by (auto dest: set_dropWhileD)
qed

text \<open>The trimmed text is empty exactly when the text is empty or whitespace only.\<close>

lemma strip_empty_iff: "strip s = [] \<longleftrightarrow> (\<forall>c \<in> set s. isspace c)"
  by (simp add: strip_def dropWhile_eq_Nil_conv dropWhile_all)

lemma strip_Nil: "strip [] = []"
  by (simp add: strip_def)

lemma map_of_setitem: "map_of (setitem d k v) = (map_of d)(k \<mapsto> v)"
  by (induction d k v rule: setitem.induct) auto

lemma keys_setitem: "fst ` set (setitem d k v) = insert k (fst ` set d)"
  by (induction d k v rule: setitem.induct) auto

lemma distinct_setitem: "distinct (map fst d) \<Longrightarrow> distinct (map fst (setitem d k v))"
  by (induction d k v rule: setitem.induct) (auto simp: keys_setitem)

lemma setitem_fresh: "k \<notin> fst ` set d \<Longrightarrow> setitem d k v = d @ [(k, v)]"
  by (induction d k v rule: setitem.induct) auto

lemma distinct_foldl_setitem:
  "distinct (map fst d) \<Longrightarrow> distinct (map fst (foldl (\<lambda>d (k, v). setitem d k v) d xs))"
  by (induction xs arbitrary: d) (auto simp: distinct_setitem)

text \<open>A merged dictionary never holds a key twice.\<close>

lemma distinct_merge_dicts: "distinct (map fst (merge_dicts ds))"
  by (simp add: merge_dicts_def distinct_foldl_setitem)

lemma foldl_setitem_fresh:
  "distinct (map fst (d @ xs)) \<Longrightarrow> foldl (\<lambda>d (k, v). setitem d k v) d xs = d @ xs"
proof (induction xs arbitrary: d)
  case Nil
  then show ?case by simp
next
  case (Cons x xs)
  obtain k v where x: "x = (k, v)" by (cases x)
  from Cons.prems x have fresh: "k \<notin> fst ` set d" by auto
  from Cons.prems x have "distinct (map fst ((d @ [(k, v)]) @ xs))" by auto
  from Cons.IH [OF this] show ?case by (simp add: x setitem_fresh [OF fresh])
qed

text \<open>When no key occurs twice, merging the tabs is just putting them one after another.\<close>

lemma merge_dicts_unique: "distinct (map fst (concat ds)) \<Longrightarrow> merge_dicts ds = concat ds"
  using foldl_setitem_fresh [of "[]" "concat ds"] by (simp add: merge_dicts_def)

lemma all_entries_unique: "unique_keys a \<Longrightarrow> all_entries a = concat (tabs a)"
  by (simp add: all_entries_def unique_keys_def merge_dicts_unique)

lemma length_tabs: "length (tabs a) = 6"
  by (simp add: tabs_def)

lemma tabs_set_tabs:
  assumes "length ts = 6"
  shows "tabs (set_tabs a ts) = ts"
proof -
  from assms obtain n c p t l m where "ts = [n, c, p, t, l, m]"
    by (auto simp: length_Suc_conv numeral_eq_Suc)
  then show ?thesis by (simp add: tabs_def)
qed

section \<open>Facts about the sample states\<close>

lemmas catalog_defs =
  init_def network_options_def cpu_options_def api_options_def tls_options_def
  logging_options_def misc_options_def

lemma started_eq:
  "started =
     \<lparr>settings = [],
      network_entries =
        [(''url'', Entry ''stratum+tcp://randomxmonero.auto.nicehash.com:9200''),
         (''coin'', Entry []),
         (''user'', Entry ''38bj4uu8uDsnC5NjoeGb8TMviBCEtMiaet''),
         (''pass'', Entry []), (''userpass'', Entry []), (''proxy'', Entry []),
         (''keepalive'', IntVar 0), (''nicehash'', IntVar 0), (''rig-id'', Entry []),
         (''algo'', Combobox
            [''gr'', ''rx/graft'', ''cn/upx2'', ''argon2/chukwav2'', ''cn/ccx'', ''kawpow'', ''rx/keva'',
             ''cn-pico/tlo'', ''rx/sfx'', ''rx/arq'', ''rx/0'', ''argon2/chukwa'', ''argon2/ninja'', ''rx/wow'',
             ''cn/fast'', ''cn/rwz'', ''cn/zls'', ''cn/double'', ''cn/r'', ''cn-pico'', ''cn/half'', ''cn/2'',
             ''cn/xao'', ''cn/rto'', ''cn-heavy/tube'', ''cn-heavy/xhv'', ''cn-heavy/0'', ''cn/1'',
             ''cn-lite/1'', ''cn-lite/0'', ''cn/0''] ''gr'')],
      cpu_entries =
        [(''no-cpu'', IntVar 0), (''threads'', Entry []), (''cpu-affinity'', Entry []),
         (''av'', Entry []), (''cpu-priority'', Entry []), (''cpu-max-threads-hint'', Entry []),
         (''cpu-memory-pool'', Entry []), (''cpu-no-yield'', IntVar 0),
         (''no-huge-pages'', IntVar 0), (''hugepage-size'', Entry []),
         (''huge-pages-jit'', IntVar 0),
         (''asm'', Combobox [''auto'', ''none'', ''intel'', ''ryzen'', ''bulldozer''] ''auto''),
         (''argon2-impl'', Combobox [''x86_64'', ''SSE2'', ''SSSE3'', ''XOP'', ''AVX2'', ''AVX-512F''] ''x86_64''),
         (''randomx-init'', Entry []), (''randomx-no-numa'', IntVar 0),
         (''randomx-mode'', Combobox [''auto'', ''fast'', ''light''] ''auto''),
         (''randomx-1gb-pages'', IntVar 0), (''randomx-wrmsr'', Entry []),
         (''randomx-no-rdmsr'', IntVar 0), (''randomx-cache-qos'', IntVar 0)],
      api_entries =
        [(''api-worker-id'', Entry []), (''api-id'', Entry []), (''http-host'', Entry ''127.0.0.1''),
         (''http-port'', Entry []), (''http-access-token'', Entry []),
         (''http-no-restricted'', IntVar 0)],
      tls_entries = [(''tls-gen'', Entry [])],
      logging_entries = [(''syslog'', IntVar 0)],
      misc_entries = [],
      process = None\<rparr>"
  by (simp add: started_def catalog_defs)

lemma unique_started: "unique_keys started"
  by (simp add: started_eq unique_keys_def tabs_def)

lemma unique_blank_coin: "unique_keys blank_coin"
  by (simp add: blank_coin_def started_eq unique_keys_def tabs_def)

lemma unique_nicehash_on: "unique_keys nicehash_on"
  by (simp add: nicehash_on_def started_eq unique_keys_def tabs_def)

lemma strip_space: "strip '' '' = []"
  by (simp add: strip_def isspace_def whitespace_def)

lemma strip_url: "strip ''stratum+tcp://randomxmonero.auto.nicehash.com:9200'' \<noteq> []"
  by (simp add: strip_def isspace_def whitespace_def)

section \<open>Capture: the document written by \<^verbatim>\<open>save_settings\<close>\<close>

lemma save_item_lookup:
  "map_of (save_item d (k, w)) =
     (if is_blank (get w) then map_of d else (map_of d)(k \<mapsto> get w))"
  by (simp add: save_item_def map_of_setitem Let_def)

lemma foldl_save_item_lookup:
  "distinct (map fst xs) \<Longrightarrow>
   map_of (foldl save_item d xs) key =
     (case map_of xs key of
        None \<Rightarrow> map_of d key
      | Some w \<Rightarrow> if is_blank (get w) then map_of d key else Some (get w))"
proof (induction xs arbitrary: d)
  case Nil
  then show ?case by simp
next
  case (Cons x xs)
  obtain k w where x: "x = (k, w)" by (cases x)
  from Cons.prems x have k: "map_of xs k = None" and d: "distinct (map fst xs)"
    by (auto simp: map_of_eq_None_iff)
  show ?case
    using k by (auto simp: x Cons.IH [OF d] save_item_lookup split: option.splits)
qed

lemma capture_lookup:
  "getitem (capture a) key =
     (case getitem (all_entries a) key of
        None \<Rightarrow> None
      | Some w \<Rightarrow> if is_blank (get w) then None else Some (get w))"
  using foldl_save_item_lookup [of "all_entries a" "[]" key]
  by (simp add: capture_def getitem_def all_entries_def distinct_merge_dicts split: option.splits)

text \<open>
  Claim C2. For every registry, the document produced by \<^verbatim>\<open>save_settings\<close> (it is both
  kept in \<open>settings\<close> and written to the file) omits every text or dropdown key whose
  trimmed value is empty, that is, whose value is empty or whitespace only, and holds
  every checkbox key with its integer state, an unchecked box as 0. A text or dropdown
  key with any other value is held with that value.
\<close>

theorem save_settings_document:
  assumes "getitem (all_entries a) key = Some w"
  shows "snd (save_settings a) = JsonObject (settings (fst (save_settings a))) \<and>
         getitem (settings (fst (save_settings a))) key =
           (case w of
              IntVar n \<Rightarrow> Some (JInt n)
            | Entry s \<Rightarrow> if strip s = [] then None else Some (JStr s)
            | Combobox choices s \<Rightarrow> if strip s = [] then None else Some (JStr s))"
  using assms by (cases w) (simp_all add: save_settings_def Let_def capture_lookup)

theorem save_settings_document_witness:
  "getitem (all_entries blank_coin) ''coin'' = Some (Entry '' '') \<and>
   getitem (settings (fst (save_settings blank_coin))) ''coin'' = None \<and>
   getitem (all_entries blank_coin) ''keepalive'' = Some (IntVar 0) \<and>
   getitem (settings (fst (save_settings blank_coin))) ''keepalive'' = Some (JInt 0) \<and>
   getitem (all_entries blank_coin) ''http-host'' = Some (Entry ''127.0.0.1'') \<and>
   getitem (settings (fst (save_settings blank_coin))) ''http-host'' = Some (JStr ''127.0.0.1'')"
proof -
  have all: "all_entries blank_coin = concat (tabs blank_coin)"
    by (rule all_entries_unique [OF unique_blank_coin])
  have coin: "getitem (all_entries blank_coin) ''coin'' = Some (Entry '' '')"
    unfolding all by (simp add: getitem_def tabs_def blank_coin_def started_eq)
  have keepalive: "getitem (all_entries blank_coin) ''keepalive'' = Some (IntVar 0)"
    unfolding all by (simp add: getitem_def tabs_def blank_coin_def started_eq)
  have host: "getitem (all_entries blank_coin) ''http-host'' = Some (Entry ''127.0.0.1'')"
    unfolding all by (simp add: getitem_def tabs_def blank_coin_def started_eq)
  have strip_host: "strip ''127.0.0.1'' \<noteq> []"
    by (simp add: strip_def isspace_def whitespace_def)
  from save_settings_document [OF coin] save_settings_document [OF keepalive]
    save_settings_document [OF host] coin keepalive host
  show ?thesis by (simp add: strip_space strip_host)
qed

section \<open>Apply: \<^verbatim>\<open>update_ui_with_settings\<close>\<close>

text \<open>
  When the walk raises nothing, every tab keeps its keys in place and every widget is
  the outcome of the loop body on it.
\<close>

lemma update_entries_ok:
  "update_entries d tab = (tab', None) \<Longrightarrow>
   list_all2 (\<lambda>kw kw'. fst kw' = fst kw \<and>
                update_widget (lookup_setting d (fst kw)) (snd kw) = Inr (snd kw')) tab tab'"
proof (induction tab arbitrary: tab')
  case Nil
  then show ?case by simp
next
  case (Cons x tab)
  obtain k w where x: "x = (k, w)" by (cases x)
  from Cons.prems x obtain w' rest' where
    w': "update_widget (lookup_setting d k) w = Inr w'" and
    rest: "update_entries d tab = (rest', None)" and
    tab': "tab' = (k, w') # rest'"
    by (auto split: sum.splits prod.splits)
  from Cons.IH [OF rest] show ?case by (simp add: x w' tab')
qed

lemma update_tabs_ok:
  "update_tabs d ts = (ts', None) \<Longrightarrow>
   list_all2 (list_all2 (\<lambda>kw kw'. fst kw' = fst kw \<and>
                update_widget (lookup_setting d (fst kw)) (snd kw) = Inr (snd kw'))) ts ts'"
proof (induction ts arbitrary: ts')
  case Nil
  then show ?case by simp
next
  case (Cons tab ts)
  from Cons.prems obtain tab' rest' where
    t: "update_entries d tab = (tab', None)" and
    rest: "update_tabs d ts = (rest', None)" and
    ts': "ts' = tab' # rest'"
    by (auto split: prod.splits option.splits)
  from Cons.IH [OF rest] update_entries_ok [OF t] show ?case by (simp add: ts')
qed

lemma update_ui_widget:
  assumes ok: "snd (update_ui_with_settings a) = None"
    and i: "i < length (tabs a)" and j: "j < length (tabs a ! i)"
    and kw: "tabs a ! i ! j = (key, w)"
  shows "\<exists>w'. tabs (fst (update_ui_with_settings a)) ! i ! j = (key, w') \<and>
           update_widget (lookup_setting (settings a) key) w = Inr w'"
proof -
  from ok obtain ts where ts: "update_tabs (settings a) (tabs a) = (ts, None)"
    and a': "fst (update_ui_with_settings a) = set_tabs a ts"
    by (auto simp: update_ui_with_settings_def split: prod.splits)
  let ?R = "\<lambda>kw kw'. fst kw' = fst kw \<and>
              update_widget (lookup_setting (settings a) (fst kw)) (snd kw) = Inr (snd kw')"
  have all: "list_all2 (list_all2 ?R) (tabs a) ts" by (rule update_tabs_ok [OF ts])
  then have "length ts = 6" by (simp add: list_all2_lengthD [symmetric] length_tabs)
  then have tabs': "tabs (fst (update_ui_with_settings a)) = ts" by (simp add: a' tabs_set_tabs)
  from all i have "list_all2 ?R (tabs a ! i) (ts ! i)" by (rule list_all2_nthD)
  from this j have "?R (tabs a ! i ! j) (ts ! i ! j)" by (rule list_all2_nthD)
  with kw tabs' show ?thesis by (cases "ts ! i ! j") auto
qed

text \<open>The walk raises nothing when the loop body succeeds on every widget.\<close>

lemma update_entries_total:
  "(\<And>k w. (k, w) \<in> set tab \<Longrightarrow> update_widget (lookup_setting d k) w = Inr (f w)) \<Longrightarrow>
   update_entries d tab = (map (\<lambda>(k, w). (k, f w)) tab, None)"
  by (induction tab) auto

lemma update_tabs_total:
  "(\<And>tab k w. tab \<in> set ts \<Longrightarrow> (k, w) \<in> set tab \<Longrightarrow>
      update_widget (lookup_setting d k) w = Inr (f w)) \<Longrightarrow>
   update_tabs d ts = (map (map (\<lambda>(k, w). (k, f w))) ts, None)"
proof (induction ts)
  case Nil
  then show ?case by simp
next
  case (Cons tab ts)
  have "update_entries d tab = (map (\<lambda>(k, w). (k, f w)) tab, None)"
    using Cons.prems by (intro update_entries_total) auto
  moreover have "update_tabs d ts = (map (map (\<lambda>(k, w). (k, f w))) ts, None)"
    using Cons.prems by (intro Cons.IH) auto
  ultimately show ?case by simp
qed

lemma update_entries_no_exn:
  "(\<And>k w. (k, w) \<in> set tab \<Longrightarrow> \<exists>w'. update_widget (lookup_setting d k) w = Inr w') \<Longrightarrow>
   snd (update_entries d tab) = None"
proof (induction tab)
  case Nil
  then show ?case by simp
next
  case (Cons x tab)
  obtain k w where x: "x = (k, w)" by (cases x)
  from Cons.prems [of k w] x obtain w' where w': "update_widget (lookup_setting d k) w = Inr w'"
    by auto
  have "snd (update_entries d tab) = None" using Cons.prems by (intro Cons.IH) auto
  then show ?case by (cases "update_entries d tab") (simp add: x w')
qed

lemma update_tabs_no_exn:
  "(\<And>tab k w. tab \<in> set ts \<Longrightarrow> (k, w) \<in> set tab \<Longrightarrow>
      \<exists>w'. update_widget (lookup_setting d k) w = Inr w') \<Longrightarrow>
   snd (update_tabs d ts) = None"
proof (induction ts)
  case Nil
  then show ?case by simp
next
  case (Cons tab ts)
  have t: "snd (update_entries d tab) = None"
    using Cons.prems by (intro update_entries_no_exn) auto
  have "snd (update_tabs d ts) = None" using Cons.prems by (intro Cons.IH) auto
  with t show ?case by (auto split: prod.splits option.splits)
qed

text \<open>
  Claim C5, as amended. When \<^verbatim>\<open>update_ui_with_settings\<close> raises nothing, every input stays
  under its key at its place, and, with \<open>value\<close> the document's value for the key or the
  empty text when the key is absent: a text entry shows \<open>value\<close> as text, so it is cleared
  when the value is the empty text or the key is absent; a checkbox holds the value
  coerced to an integer, and 0 when the value is empty or absent; a dropdown is left at
  its current displayed value when the value is empty or absent.
\<close>

theorem update_ui_effect:
  assumes "snd (update_ui_with_settings a) = None"
    and "i < length (tabs a)" and "j < length (tabs a ! i)"
    and "tabs a ! i ! j = (key, w)"
  shows "\<exists>w'. tabs (fst (update_ui_with_settings a)) ! i ! j = (key, w') \<and>
           (case w of
              Entry s \<Rightarrow> w' = Entry (tk_str (lookup_setting (settings a) key))
            | IntVar n \<Rightarrow>
                (\<exists>m. w' = IntVar m \<and>
                   (if truthy (lookup_setting (settings a) key)
                    then py_int (lookup_setting (settings a) key) = Inr m else m = 0))
            | Combobox choices s \<Rightarrow>
                truthy (lookup_setting (settings a) key) \<or> w' = w)"
proof -
  from update_ui_widget [OF assms] obtain w' where
    pos: "tabs (fst (update_ui_with_settings a)) ! i ! j = (key, w')" and
    upd: "update_widget (lookup_setting (settings a) key) w = Inr w'" by blast
  from upd have "case w of
              Entry s \<Rightarrow> w' = Entry (tk_str (lookup_setting (settings a) key))
            | IntVar n \<Rightarrow>
                (\<exists>m. w' = IntVar m \<and>
                   (if truthy (lookup_setting (settings a) key)
                    then py_int (lookup_setting (settings a) key) = Inr m else m = 0))
            | Combobox choices s \<Rightarrow>
                truthy (lookup_setting (settings a) key) \<or> w' = w"
    by (cases w) (auto simp: update_widget_def split: if_splits sum.splits)
  with pos show ?thesis by blast
qed

theorem update_ui_effect_witness:
  "snd (update_ui_with_settings edited_document) = None \<and>
   tabs edited_document ! 0 ! 0
     = (''url'', Entry ''stratum+tcp://randomxmonero.auto.nicehash.com:9200'') \<and>
   tabs (fst (update_ui_with_settings edited_document)) ! 0 ! 0 = (''url'', Entry ''pool:3333'') \<and>
   tabs edited_document ! 0 ! 6 = (''keepalive'', IntVar 0) \<and>
   tabs (fst (update_ui_with_settings edited_document)) ! 0 ! 6 = (''keepalive'', IntVar 1) \<and>
   lookup_setting (settings edited_document) ''randomx-mode'' = JStr [] \<and>
   tabs edited_document ! 1 ! 15
     = (''randomx-mode'', Combobox [''auto'', ''fast'', ''light''] ''auto'') \<and>
   tabs (fst (update_ui_with_settings edited_document)) ! 1 ! 15
     = (''randomx-mode'', Combobox [''auto'', ''fast'', ''light''] ''auto'')"
proof -
  have ok: "snd (update_ui_with_settings edited_document) = None"
    by (simp add: update_ui_with_settings_def tabs_def edited_document_def started_eq
        lookup_setting_def getitem_def update_widget_def)
  have i0: "0 < length (tabs edited_document)" and i1: "1 < length (tabs edited_document)"
    by (simp_all add: tabs_def)
  have j0: "0 < length (tabs edited_document ! 0)" and j6: "6 < length (tabs edited_document ! 0)"
    and j15: "15 < length (tabs edited_document ! 1)"
    by (simp_all add: tabs_def edited_document_def started_eq)
  have url: "tabs edited_document ! 0 ! 0
               = (''url'', Entry ''stratum+tcp://randomxmonero.auto.nicehash.com:9200'')"
    by (simp add: tabs_def edited_document_def started_eq)
  have keepalive: "tabs edited_document ! 0 ! 6 = (''keepalive'', IntVar 0)"
    by (simp add: tabs_def edited_document_def started_eq)
  have mode: "tabs edited_document ! 1 ! 15
                = (''randomx-mode'', Combobox [''auto'', ''fast'', ''light''] ''auto'')"
    by (simp add: tabs_def edited_document_def started_eq)
  have v_url: "lookup_setting (settings edited_document) ''url'' = JStr ''pool:3333''"
    and v_keepalive: "lookup_setting (settings edited_document) ''keepalive'' = JInt 1"
    and v_mode: "lookup_setting (settings edited_document) ''randomx-mode'' = JStr []"
    by (simp_all add: lookup_setting_def getitem_def edited_document_def)
  from update_ui_effect [OF ok i0 j0 url] update_ui_effect [OF ok i0 j6 keepalive]
    update_ui_effect [OF ok i1 j15 mode] ok url keepalive mode v_mode
  show ?thesis by (simp add: v_url v_keepalive)
qed

text \<open>
  The claim as written fails: with the key \<^verbatim>\<open>url\<close> absent from the document, the URL
  entry does not stay at its displayed value; it is cleared.
\<close>

theorem update_ui_clears_entry_counterexample:
  "getitem (settings started) ''url'' = None \<and>
   tabs started ! 0 ! 0 = (''url'', Entry ''stratum+tcp://randomxmonero.auto.nicehash.com:9200'') \<and>
   snd (update_ui_with_settings started) = None \<and>
   tabs (fst (update_ui_with_settings started)) ! 0 ! 0 = (''url'', Entry [])"
proof -
  have ok: "snd (update_ui_with_settings started) = None"
    by (simp add: update_ui_with_settings_def tabs_def started_eq
        lookup_setting_def getitem_def update_widget_def)
  have i0: "0 < length (tabs started)" by (simp add: tabs_def)
  have j0: "0 < length (tabs started ! 0)" by (simp add: tabs_def started_eq)
  have url: "tabs started ! 0 ! 0
               = (''url'', Entry ''stratum+tcp://randomxmonero.auto.nicehash.com:9200'')"
    by (simp add: tabs_def started_eq)
  have absent: "getitem (settings started) ''url'' = None"
    by (simp add: getitem_def started_eq)
  then have v: "lookup_setting (settings started) ''url'' = JStr []"
    by (simp add: lookup_setting_def)
  from update_ui_widget [OF ok i0 j0 url] ok url absent
  show ?thesis by (simp add: v update_widget_def)
qed

section \<open>Round trip: save, then load\<close>

text \<open>
  What the loop body of \<^verbatim>\<open>update_ui_with_settings\<close> does to a widget whose own value
  was captured: only an entry holding nothing but whitespace changes; it is cleared.
\<close>

lemma reload_widget:
  "update_widget (if is_blank (get w) then JStr [] else get w) w =
     Inr (case w of Entry s \<Rightarrow> Entry (if strip s = [] then [] else s) | _ \<Rightarrow> w)"
  by (cases w) (auto simp: update_widget_def strip_Nil)

lemma lookup_capture:
  assumes u: "unique_keys a" and tab: "tab \<in> set (tabs a)" and kw: "(k, w) \<in> set tab"
  shows "lookup_setting (capture a) k = (if is_blank (get w) then JStr [] else get w)"
proof -
  from u have d: "distinct (map fst (concat (tabs a)))" by (simp add: unique_keys_def)
  from tab kw have "(k, w) \<in> set (concat (tabs a))" by auto
  with d have "map_of (concat (tabs a)) k = Some w" by simp
  then have "getitem (all_entries a) k = Some w"
    by (simp add: all_entries_unique [OF u] getitem_def)
  then show ?thesis by (simp add: lookup_setting_def capture_lookup)
qed

lemma save_load:
  assumes u: "unique_keys a"
  shows "load_settings (snd (save_settings a)) (fst (save_settings a)) =
           (set_tabs (a\<lparr>settings := capture a\<rparr>)
              (map (map (\<lambda>(k, w). (k, case w of
                                         Entry s \<Rightarrow> Entry (if strip s = [] then [] else s)
                                       | _ \<Rightarrow> w)))
                 (tabs a)), [], None)"
proof -
  have "update_tabs (capture a) (tabs a) =
          (map (map (\<lambda>(k, w). (k, case w of
                                     Entry s \<Rightarrow> Entry (if strip s = [] then [] else s)
                                   | _ \<Rightarrow> w)))
             (tabs a), None)"
    by (intro update_tabs_total) (simp add: lookup_capture [OF u] reload_widget)
  moreover have "tabs (a\<lparr>settings := capture a\<rparr>) = tabs a" by (simp add: tabs_def)
  ultimately show ?thesis
    by (simp add: save_settings_def Let_def update_ui_with_settings_def)
qed

text \<open>
  Loading a file saved from a state into any state with the same inputs raises nothing:
  every checkbox key of the document holds an integer.
\<close>

lemma same_inputs_source:
  assumes s: "same_inputs a b" and tab: "tab' \<in> set (tabs b)" and kw: "(k, w') \<in> set tab'"
  shows "\<exists>tab w. tab \<in> set (tabs a) \<and> (k, w) \<in> set tab \<and> same_kind w w'"
proof -
  let ?R = "\<lambda>kw kw'. fst kw' = fst kw \<and> same_kind (snd kw) (snd kw')"
  from s have all: "list_all2 (list_all2 ?R) (tabs a) (tabs b)" by (simp add: same_inputs_def)
  from tab obtain i where i: "i < length (tabs b)" and ti: "tabs b ! i = tab'"
    by (auto simp: in_set_conv_nth)
  from all have len: "length (tabs a) = length (tabs b)" by (rule list_all2_lengthD)
  from all i have row: "list_all2 ?R (tabs a ! i) (tabs b ! i)" by (rule list_all2_nthD2)
  from kw ti obtain j where j: "j < length (tabs b ! i)" and kj: "tabs b ! i ! j = (k, w')"
    by (auto simp: in_set_conv_nth)
  from row have len2: "length (tabs a ! i) = length (tabs b ! i)" by (rule list_all2_lengthD)
  from row j have r: "?R (tabs a ! i ! j) (tabs b ! i ! j)" by (rule list_all2_nthD2)
  obtain k0 w where a: "tabs a ! i ! j = (k0, w)" by (cases "tabs a ! i ! j")
  from r a kj have "k0 = k" and "same_kind w w'" by auto
  moreover have "tabs a ! i \<in> set (tabs a)" using i len by simp
  moreover have "(k0, w) \<in> set (tabs a ! i)" using a j len2 by (metis nth_mem)
  ultimately show ?thesis by blast
qed

lemma update_captured:
  "same_kind w w' \<Longrightarrow>
   \<exists>w''. update_widget (if is_blank (get w) then JStr [] else get w) w' = Inr w''"
  by (cases w; cases w') (auto simp: update_widget_def)

lemma load_saved_no_exn:
  assumes u: "unique_keys a" and s: "same_inputs a b"
  shows "snd (update_tabs (capture a) (tabs b)) = None"
proof (rule update_tabs_no_exn)
  fix tab' k w'
  assume "tab' \<in> set (tabs b)" and "(k, w') \<in> set tab'"
  from same_inputs_source [OF s this] obtain tab w where
    tab: "tab \<in> set (tabs a)" and kw: "(k, w) \<in> set tab" and sk: "same_kind w w'" by blast
  from update_captured [OF sk] show "\<exists>w''. update_widget (lookup_setting (capture a) k) w' = Inr w''"
    by (simp add: lookup_capture [OF u tab kw])
qed

text \<open>
  Claim C1, as amended. Take a registry whose keys are unique and a text input in it whose
  value \<open>s\<close> is non-empty after trimming whitespace. Save the settings. Then, whatever
  values the inputs of the form have been given since (state \<open>b\<close>, in which the same
  text input shows any text \<open>t\<close>), loading the saved file shows no notice, raises
  nothing, and puts the saved value \<open>s\<close> back into that input, under its key and at its
  place.
\<close>

theorem load_restores_text:
  assumes "unique_keys a" and "same_inputs a b"
    and "i < length (tabs a)" and "j < length (tabs a ! i)"
    and "tabs a ! i ! j = (key, Entry s)" and "strip s \<noteq> []"
  shows "snd (load_settings (snd (save_settings a)) b) = ([], None) \<and>
         (\<exists>t. tabs b ! i ! j = (key, Entry t)) \<and>
         tabs (fst (load_settings (snd (save_settings a)) b)) ! i ! j = (key, Entry s)"
proof -
  let ?R = "\<lambda>kw kw'. fst kw' = fst kw \<and> same_kind (snd kw) (snd kw')"
  let ?b = "b\<lparr>settings := capture a\<rparr>"
  from assms(2) have all: "list_all2 (list_all2 ?R) (tabs a) (tabs b)"
    by (simp add: same_inputs_def)
  from all assms(3) have row: "list_all2 ?R (tabs a ! i) (tabs b ! i)" by (rule list_all2_nthD)
  from row assms(4) have "?R (tabs a ! i ! j) (tabs b ! i ! j)" by (rule list_all2_nthD)
  with assms(5) obtain t where bj: "tabs b ! i ! j = (key, Entry t)"
    by (cases "tabs b ! i ! j"; cases "snd (tabs b ! i ! j)") auto
  have tb: "tabs ?b = tabs b" by (simp add: tabs_def)
  have ib: "i < length (tabs ?b)" using all assms(3) by (simp add: tb list_all2_lengthD [symmetric])
  have jb: "j < length (tabs ?b ! i)"
    using row assms(4) by (simp add: tb list_all2_lengthD [symmetric])
  have ok: "snd (update_ui_with_settings ?b) = None"
    using load_saved_no_exn [OF assms(1,2)]
    by (cases "update_tabs (capture a) (tabs b)") (simp add: update_ui_with_settings_def tb)
  have kw: "tabs ?b ! i ! j = (key, Entry t)" by (simp add: tb bj)
  have "tabs a ! i \<in> set (tabs a)" using assms(3) by simp
  moreover have "(key, Entry s) \<in> set (tabs a ! i)" using assms(4,5) by (metis nth_mem)
  ultimately have v: "lookup_setting (capture a) key = JStr s"
    using lookup_capture [OF assms(1), of "tabs a ! i" key "Entry s"] assms(6) by simp
  from update_ui_widget [OF ok ib jb kw] v
  have "tabs (fst (update_ui_with_settings ?b)) ! i ! j = (key, Entry s)"
    by (auto simp: update_widget_def)
  with ok bj show ?thesis
    by (cases "update_ui_with_settings ?b") (simp add: save_settings_def Let_def)
qed

theorem load_restores_text_witness:
  "unique_keys started \<and> same_inputs started other_values \<and>
   tabs started ! 0 ! 0 = (''url'', Entry ''stratum+tcp://randomxmonero.auto.nicehash.com:9200'') \<and>
   strip ''stratum+tcp://randomxmonero.auto.nicehash.com:9200'' \<noteq> [] \<and>
   tabs other_values ! 0 ! 0 = (''url'', Entry ''pool:3333'') \<and>
   snd (load_settings (snd (save_settings started)) other_values) = ([], None) \<and>
   tabs (fst (load_settings (snd (save_settings started)) other_values)) ! 0 ! 0
     = (''url'', Entry ''stratum+tcp://randomxmonero.auto.nicehash.com:9200'')"
proof -
  have same: "same_inputs started other_values"
    by (simp add: same_inputs_def tabs_def other_values_def started_eq)
  have i: "0 < length (tabs started)" by (simp add: tabs_def)
  have j: "0 < length (tabs started ! 0)" by (simp add: tabs_def started_eq)
  have t: "tabs started ! 0 ! 0
             = (''url'', Entry ''stratum+tcp://randomxmonero.auto.nicehash.com:9200'')"
    by (simp add: tabs_def started_eq)
  have t': "tabs other_values ! 0 ! 0 = (''url'', Entry ''pool:3333'')"
    by (simp add: tabs_def other_values_def started_eq)
  from load_restores_text [OF unique_started same i j t strip_url] unique_started same t t' strip_url
  show ?thesis by blast
qed

text \<open>
  The claim as written fails for a value that is non-empty but whitespace only: the user
  types one space into the Coin field; after save and load the field is empty.
\<close>

theorem round_trip_whitespace_counterexample:
  "unique_keys blank_coin \<and>
   tabs blank_coin ! 0 ! 1 = (''coin'', Entry '' '') \<and>
   '' '' \<noteq> [] \<and>
   tabs (fst (load_settings (snd (save_settings blank_coin)) (fst (save_settings blank_coin)))) ! 0 ! 1
     = (''coin'', Entry [])"
proof -
  have t: "tabs blank_coin ! 0 ! 1 = (''coin'', Entry '' '')"
    by (simp add: blank_coin_def started_eq tabs_def)
  have "tabs (fst (load_settings (snd (save_settings blank_coin)) (fst (save_settings blank_coin)))) ! 0 ! 1
          = (\<lambda>(k, w). (k, case w of Entry s \<Rightarrow> Entry (if strip s = [] then [] else s) | _ \<Rightarrow> w))
              (tabs blank_coin ! 0 ! 1)"
    by (simp add: save_load [OF unique_blank_coin] tabs_set_tabs length_tabs)
       (simp add: tabs_def blank_coin_def started_eq)
  then show ?thesis using t unique_blank_coin by (simp add: strip_space)
qed

text \<open>
  A dropdown is another matter. Since a combobox passes the test
  \<^verbatim>\<open>isinstance(widget, tk.Entry)\<close>, the branch of \<^verbatim>\<open>update_ui_with_settings\<close> written for
  it is never reached, and loading does not change what a dropdown shows: the mode
  \<^verbatim>\<open>fast\<close> is saved, and after loading into the start-up state the dropdown still
  shows \<^verbatim>\<open>auto\<close>.
\<close>

lemma unique_fast_mode: "unique_keys fast_mode"
  by (simp add: fast_mode_def started_eq unique_keys_def tabs_def)

lemma load_keeps_dropdown:
  "tabs fast_mode ! 1 ! 15 = (''randomx-mode'', Combobox [''auto'', ''fast'', ''light''] ''fast'') \<and>
   lookup_setting (capture fast_mode) ''randomx-mode'' = JStr ''fast'' \<and>
   tabs started ! 1 ! 15 = (''randomx-mode'', Combobox [''auto'', ''fast'', ''light''] ''auto'') \<and>
   snd (load_settings (snd (save_settings fast_mode)) started) = ([], None) \<and>
   tabs (fst (load_settings (snd (save_settings fast_mode)) started)) ! 1 ! 15
     = (''randomx-mode'', Combobox [''auto'', ''fast'', ''light''] ''auto'')"
proof -
  let ?b = "started\<lparr>settings := capture fast_mode\<rparr>"
  have same: "same_inputs fast_mode started"
    by (simp add: same_inputs_def tabs_def fast_mode_def started_eq)
  have tf: "tabs fast_mode ! 1 ! 15
              = (''randomx-mode'', Combobox [''auto'', ''fast'', ''light''] ''fast'')"
    by (simp add: tabs_def fast_mode_def started_eq)
  have ts: "tabs started ! 1 ! 15
              = (''randomx-mode'', Combobox [''auto'', ''fast'', ''light''] ''auto'')"
    by (simp add: tabs_def started_eq)
  have tb: "tabs ?b = tabs started" by (simp add: tabs_def)
  have i: "1 < length (tabs ?b)" by (simp add: tabs_def)
  have j: "15 < length (tabs ?b ! 1)" by (simp add: tabs_def started_eq)
  have kw: "tabs ?b ! 1 ! 15
              = (''randomx-mode'', Combobox [''auto'', ''fast'', ''light''] ''auto'')"
    unfolding tb by (rule ts)
  have ok: "snd (update_ui_with_settings ?b) = None"
    using load_saved_no_exn [OF unique_fast_mode same]
    by (cases "update_tabs (capture fast_mode) (tabs started)")
       (simp add: update_ui_with_settings_def tb)
  have "tabs fast_mode ! 1 \<in> set (tabs fast_mode)" by (simp add: tabs_def)
  moreover have "(''randomx-mode'', Combobox [''auto'', ''fast'', ''light''] ''fast'')
                   \<in> set (tabs fast_mode ! 1)"
    by (simp add: tabs_def fast_mode_def started_eq)
  ultimately have v: "lookup_setting (capture fast_mode) ''randomx-mode'' = JStr ''fast''"
    using lookup_capture [OF unique_fast_mode, of "tabs fast_mode ! 1" "''randomx-mode''"
            "Combobox [''auto'', ''fast'', ''light''] ''fast''"]
    by (simp add: strip_def isspace_def whitespace_def)
  from update_ui_widget [OF ok i j kw]
  have "tabs (fst (update_ui_with_settings ?b)) ! 1 ! 15
          = (''randomx-mode'', Combobox [''auto'', ''fast'', ''light''] ''auto'')"
    by (auto simp: update_widget_def)
  with ok tf ts v show ?thesis
    by (cases "update_ui_with_settings ?b") (simp add: save_settings_def Let_def)
qed

section \<open>Restore: \<^verbatim>\<open>load_settings\<close> without a file\<close>

text \<open>
  Claim C7. When the settings file is absent, \<^verbatim>\<open>load_settings\<close> shows the error notice
  "No parameter file found.", raises nothing, and leaves the whole state, the document
  in memory and every input included, as it was.
\<close>

theorem load_missing_file:
  "load_settings NoFile a = (a, [ShowError ''Error'' ''No parameter file found.''], None)"
  by simp

theorem load_missing_file_witness:
  "load_settings NoFile edited_document
     = (edited_document, [ShowError ''Error'' ''No parameter file found.''], None)"
  by (rule load_missing_file)

section \<open>Building the command line\<close>

lemma add_arg_append: "add_arg command kw = command @ add_arg [] kw"
  by (cases kw) (simp add: add_arg_def Let_def)

text \<open>The command is the binary followed by what each input contributes, in registry order.\<close>

lemma foldl_add_arg: "foldl add_arg command xs = command @ concat (map (add_arg []) xs)"
proof (induction xs arbitrary: command)
  case Nil
  then show ?case by simp
next
  case (Cons x xs)
  show ?case using add_arg_append [of command x] by (simp add: Cons.IH)
qed

lemma add_options_param:
  "add_options es
     (map (\<lambda>(label_text, param, key, widget_type). (label_text, g param, key, widget_type)) rows)
     = add_options es rows"
  by (induction es rows rule: add_options.induct) (auto split: option.splits)

lemma build_command_started:
  "build_command started =
     [''./xmrig'', ''--url=stratum+tcp://randomxmonero.auto.nicehash.com:9200'',
      ''--user=38bj4uu8uDsnC5NjoeGb8TMviBCEtMiaet'', ''--algo=gr'', ''--asm=auto'',
      ''--argon2-impl=x86_64'', ''--randomx-mode=auto'', ''--http-host=127.0.0.1'']"
  unfolding build_command_def foldl_add_arg all_entries_unique [OF unique_started]
  by (simp add: tabs_def started_eq add_arg_def)

lemma build_command_nicehash_on:
  "build_command nicehash_on =
     [''./xmrig'', ''--url=stratum+tcp://randomxmonero.auto.nicehash.com:9200'',
      ''--user=38bj4uu8uDsnC5NjoeGb8TMviBCEtMiaet'', ''--nicehash'', ''--algo=gr'', ''--asm=auto'',
      ''--argon2-impl=x86_64'', ''--randomx-mode=auto'', ''--http-host=127.0.0.1'']"
  unfolding build_command_def foldl_add_arg all_entries_unique [OF unique_nicehash_on]
  by (simp add: tabs_def nicehash_on_def started_eq add_arg_def)

text \<open>
  Claim C3. The command built by \<^verbatim>\<open>run_xmrig\<close> is \<^verbatim>\<open>./xmrig\<close> followed by the tokens of
  each input of the merged registry in turn, and a checkbox input contributes the one
  token \<^verbatim>\<open>--key\<close> when it is checked and no token when it is unchecked.
\<close>

theorem checkbox_args:
  "build_command a = ''./xmrig'' # concat (map (add_arg []) (all_entries a)) \<and>
   add_arg [] (key, IntVar n) = (if n \<noteq> 0 then [''--'' @ key] else [])"
  by (simp add: build_command_def foldl_add_arg add_arg_def)

theorem checkbox_args_witness:
  "add_arg [] (''nicehash'', IntVar 1) = [''--nicehash''] \<and>
   add_arg [] (''keepalive'', IntVar 0) = [] \<and>
   build_command nicehash_on
     = ''./xmrig'' # concat (map (add_arg []) (all_entries nicehash_on)) \<and>
   build_command nicehash_on =
     [''./xmrig'', ''--url=stratum+tcp://randomxmonero.auto.nicehash.com:9200'',
      ''--user=38bj4uu8uDsnC5NjoeGb8TMviBCEtMiaet'', ''--nicehash'', ''--algo=gr'', ''--asm=auto'',
      ''--argon2-impl=x86_64'', ''--randomx-mode=auto'', ''--http-host=127.0.0.1'']"
  using checkbox_args [of nicehash_on "''nicehash''" 1] checkbox_args [of nicehash_on "''keepalive''" 0]
    build_command_nicehash_on
  by simp

text \<open>
  Claim C4, as amended. A text or dropdown input with a non-empty displayed value
  contributes the one token \<^verbatim>\<open>--key=value\<close>, with two dashes in front, and no token when
  the value is empty. The token is built from the key under which the input is
  registered: the registry made by \<^verbatim>\<open>add_options\<close> does not depend on the flag column of
  the catalog.
\<close>

theorem text_args:
  assumes "get w = JStr s"
  shows "build_command a = ''./xmrig'' # concat (map (add_arg []) (all_entries a)) \<and>
         add_arg [] (key, w) = (if s \<noteq> [] then [''--'' @ key @ ''='' @ s] else []) \<and>
         add_options es
           (map (\<lambda>(label_text, param, key, widget_type). (label_text, g param, key, widget_type)) rows)
           = add_options es rows"
  using assms
  by (cases w) (auto simp add: build_command_def foldl_add_arg add_arg_def add_options_param)

theorem text_args_witness:
  "get (Entry ''127.0.0.1'') = JStr ''127.0.0.1'' \<and>
   add_arg [] (''http-host'', Entry ''127.0.0.1'') = [''--http-host=127.0.0.1''] \<and>
   get (Entry []) = JStr [] \<and>
   add_arg [] (''coin'', Entry []) = [] \<and>
   build_command started
     = ''./xmrig'' # concat (map (add_arg []) (all_entries started))"
proof -
  have h: "get (Entry ''127.0.0.1'') = JStr ''127.0.0.1''" and c: "get (Entry []) = JStr []"
    by simp_all
  from text_args [OF h, of started "''http-host''"] text_args [OF c, of started "''coin''"] h c
  show ?thesis by simp
qed

text \<open>
  The claim as written fails: the token has two dashes in front. For the URL entry of the
  start-up state the command holds \<^verbatim>\<open>--url=...\<close> and does not hold \<^verbatim>\<open>url=...\<close>.
\<close>

theorem text_args_counterexample:
  "tabs started ! 0 ! 0 = (''url'', Entry ''stratum+tcp://randomxmonero.auto.nicehash.com:9200'') \<and>
   ''--url=stratum+tcp://randomxmonero.auto.nicehash.com:9200'' \<in> set (build_command started) \<and>
   ''url=stratum+tcp://randomxmonero.auto.nicehash.com:9200'' \<notin> set (build_command started)"
  by (simp add: build_command_started) (simp add: tabs_def started_eq)

section \<open>Starting and stopping the process\<close>

text \<open>
  Claim C6. If a process handle exists and its process is still alive, \<^verbatim>\<open>run_xmrig\<close>
  shows the warning "XMRig is already running.", starts no process, and leaves the
  state, the handle included, as it was.
\<close>

theorem run_while_alive:
  "process a = Some p \<Longrightarrow> alive e p \<Longrightarrow>
   run_xmrig e a = (a, [ShowWarning ''Warning'' ''XMRig is already running.''])"
  by (simp add: run_xmrig_def already_running_def)

theorem run_while_alive_witness:
  "process with_handle = Some 1 \<and> alive still_alive 1 \<and>
   run_xmrig still_alive with_handle
     = (with_handle, [ShowWarning ''Warning'' ''XMRig is already running.''])"
proof -
  have p: "process with_handle = Some 1" by (simp add: with_handle_def)
  have l: "alive still_alive 1" by (simp add: still_alive_def)
  from run_while_alive [OF p l] p l show ?thesis by blast
qed

text \<open>
  Claim C8, as amended. If the terminal program is not installed and no live process is
  tracked, \<^verbatim>\<open>run_xmrig\<close> shows the error "mate-terminal is not installed or not found."
  and leaves the state as it was; the process handle is the one from before the call.
\<close>

theorem run_without_terminal:
  "\<not> terminal_installed e \<Longrightarrow> \<not> already_running e a \<Longrightarrow>
   run_xmrig e a = (a, [ShowError ''Error'' ''mate-terminal is not installed or not found.''])"
  by (simp add: run_xmrig_def)

theorem run_without_terminal_witness:
  "\<not> terminal_installed no_terminal \<and> \<not> already_running no_terminal started \<and>
   process started = None \<and>
   run_xmrig no_terminal started
     = (started, [ShowError ''Error'' ''mate-terminal is not installed or not found.''])"
proof -
  have t: "\<not> terminal_installed no_terminal" by (simp add: no_terminal_def)
  have p: "process started = None" by (simp add: started_eq)
  then have r: "\<not> already_running no_terminal started" by (simp add: already_running_def)
  from run_without_terminal [OF t r] t r p show ?thesis by blast
qed

text \<open>
  The claim as written fails: when the handle of a process that has exited is still
  set, the failed call leaves that handle set.
\<close>

theorem run_without_terminal_counterexample:
  "process with_handle = Some 1 \<and> \<not> alive no_terminal 1 \<and>
   \<not> terminal_installed no_terminal \<and>
   snd (run_xmrig no_terminal with_handle)
     = [ShowError ''Error'' ''mate-terminal is not installed or not found.''] \<and>
   process (fst (run_xmrig no_terminal with_handle)) = Some 1"
  by (simp add: run_xmrig_def already_running_def with_handle_def no_terminal_def)

text \<open>
  Claim C9. With no process handle, \<^verbatim>\<open>stop_xmrig\<close> shows the warning
  "XMRig is not running.", calls no \<^verbatim>\<open>terminate\<close>, and leaves the state as it was.
\<close>

theorem stop_without_process:
  "process a = None \<Longrightarrow>
   stop_xmrig a = (a, [ShowWarning ''Warning'' ''XMRig is not running.''])"
  by (simp add: stop_xmrig_def)

theorem stop_without_process_witness:
  "process started = None \<and>
   stop_xmrig started = (started, [ShowWarning ''Warning'' ''XMRig is not running.''])"
proof -
  have p: "process started = None" by (simp add: started_eq)
  from stop_without_process [OF p] p show ?thesis by blast
qed

text \<open>
  Claim C10. \<^verbatim>\<open>stop_xmrig\<close> looks at the handle only; whether the process is alive is no
  input of it. For every handle it calls \<^verbatim>\<open>terminate\<close> on it, clears it and shows
  "XMRig stopped."; the warning "XMRig is not running." is shown exactly when there is
  no handle.
\<close>

theorem stop_ignores_liveness:
  "(process a = Some p \<longrightarrow>
      stop_xmrig a = (a\<lparr>process := None\<rparr>, [Terminate p, ShowInfo ''Info'' ''XMRig stopped.''])) \<and>
   (ShowWarning ''Warning'' ''XMRig is not running.'' \<in> set (snd (stop_xmrig a))
      \<longleftrightarrow> process a = None)"
  by (auto simp: stop_xmrig_def split: option.splits)

theorem stop_ignores_liveness_witness:
  "process with_handle = Some 1 \<and> \<not> alive no_terminal 1 \<and>
   stop_xmrig with_handle
     = (with_handle\<lparr>process := None\<rparr>, [Terminate 1, ShowInfo ''Info'' ''XMRig stopped.'']) \<and>
   ShowWarning ''Warning'' ''XMRig is not running.'' \<notin> set (snd (stop_xmrig with_handle))"
proof -
  have p: "process with_handle = Some 1" by (simp add: with_handle_def)
  have d: "\<not> alive no_terminal 1" by (simp add: no_terminal_def)
  from stop_ignores_liveness [of with_handle 1] p d show ?thesis by simp
qed

end
